theory Spec2Isabelle
  imports Complex_Main "HOL-Library.Sublist"
begin

section \<open>Data model\<close>

text \<open>
  The Prisma enum \<open>Role\<close> and the two persisted models. Field names carry a prefix
  (\<open>u_\<close> for \<open>User\<close>, \<open>t_\<close> for \<open>Task\<close>, \<open>tp_\<close> for \<open>TokenPayload\<close>) because the
  source reuses \<open>id\<close>, \<open>role\<close>, \<open>createdAt\<close> and \<open>updatedAt\<close> across types. Time is
  the clock reading in seconds, identifiers are strings (UUIDs).
\<close>

datatype Role = USER | ADMIN

datatype TaskStatus = PENDING | IN_PROGRESS | COMPLETED

record User =
  u_id :: string
  u_email :: string
  u_password :: string
  u_role :: Role
  u_createdAt :: nat
  u_updatedAt :: nat

record Task =
  t_id :: string
  t_title :: string
  t_description :: "string option"
  t_status :: TaskStatus
  t_userId :: string
  t_createdAt :: nat
  t_updatedAt :: nat

text \<open>The relational store behind \<open>prisma\<close>: one table per model, in insertion order.\<close>

record Database =
  users :: "User list"
  tasks :: "Task list"

subsection \<open>Errors\<close>

text \<open>
  Modelled from the spec: \<open>utils/errors\<close> (the class \<open>AppError\<close> and the table
  \<open>errorCodes\<close>) is not among the sources. The members the sources use are
  \<open>CONFLICT\<close>, \<open>AUTH_FAILED\<close>, \<open>INVALID_TOKEN\<close>, \<open>FORBIDDEN\<close>, \<open>NOT_FOUND\<close> and
  \<open>VALIDATION_ERROR\<close>; the error taxonomy of the specification adds \<open>Unauthenticated\<close>
  and \<open>StorageUnavailable\<close>, and \<open>errorHandler\<close> writes the literal \<open>INTERNAL_ERROR\<close>.
\<close>

datatype errorCode =
  VALIDATION_ERROR | CONFLICT | AUTH_FAILED | INVALID_TOKEN | FORBIDDEN
  | UNAUTHENTICATED | NOT_FOUND | STORAGE_UNAVAILABLE | INTERNAL_ERROR

text \<open>
  The type of a Joi validation error (\<open>detail.type\<close>). Joi's message text is a function
  of this type, the field label and the limit of the rule; the model keeps the type in
  the place of the text.
\<close>

datatype joi_error =
  any_required | any_only
  | string_base | string_empty | string_email | string_min
  | number_base | number_infinity | number_unsafe | number_integer | number_min | number_max

record ErrorDetail =
  field :: string
  detail_message :: joi_error

text \<open>
  What a \<open>throw\<close> carries: an \<open>AppError(statusCode, code, message, details)\<close>
  (\<open>details\<close> is \<open>None\<close> when the constructor gets three arguments), or any other
  JavaScript \<open>Error\<close> (a fault of the store, for instance), which \<open>errorHandler\<close>
  answers with status 500.
\<close>

datatype error =
  AppError (statusCode: nat) (code: errorCode) (message: string)
    (details: "ErrorDetail list option")
  | Error string

subsection \<open>Collaborators outside the repository\<close>

text \<open>
  \<open>bcrypt\<close> and \<open>jsonwebtoken\<close> are third-party packages. Their primitives are
  parameters of the model, so every theorem below holds for whatever they compute unless
  it states a hypothesis about them:
  \<^item> \<open>bcrypt_hash data saltRounds salt\<close>: the hash string, the random salt made explicit;
  \<^item> \<open>bcrypt_compare data encrypted\<close>: whether \<open>data\<close> hashes to \<open>encrypted\<close>;
  \<^item> \<open>jwt_encode payload secret\<close>: the compact token carrying \<open>payload\<close>, signed;
  \<^item> \<open>jwt_decode token\<close>: the payload of a well-formed token, \<open>None\<close> when malformed;
  \<^item> \<open>jwt_signature_ok token secret\<close>: whether the signature checks under \<open>secret\<close>.
\<close>

record TokenPayload =
  tp_sub :: string
  tp_role :: Role
  tp_iat :: nat
  tp_exp :: nat

record Libs =
  bcrypt_hash :: "string \<Rightarrow> nat \<Rightarrow> string \<Rightarrow> string"
  bcrypt_compare :: "string \<Rightarrow> string \<Rightarrow> bool"
  jwt_encode :: "TokenPayload \<Rightarrow> string \<Rightarrow> string"
  jwt_decode :: "string \<Rightarrow> TokenPayload option"
  jwt_signature_ok :: "string \<Rightarrow> string \<Rightarrow> bool"

text \<open>\<open>config.jwt\<close>: the signing secret and the token lifetime (\<open>expiresIn\<close>) in seconds.\<close>

record Config =
  jwt_secret :: string
  jwt_expiry :: nat

text \<open>
  \<open>jwt.sign(payload, secret, {expiresIn})\<close> at clock reading \<open>now\<close>: the library adds
  \<open>iat = now\<close> and \<open>exp = now + expiresIn\<close> to the payload and signs it.
\<close>

definition jwt_sign :: "Libs \<Rightarrow> string \<times> Role \<Rightarrow> string \<Rightarrow> nat \<Rightarrow> nat \<Rightarrow> string" where
  "jwt_sign L payload secret expiresIn now =
     jwt_encode L
       \<lparr>tp_sub = fst payload, tp_role = snd payload, tp_iat = now, tp_exp = now + expiresIn\<rparr>
       secret"

text \<open>
  \<open>jwt.verify(token, secret)\<close> at clock reading \<open>now\<close>, in the library's order: a
  malformed token, then a signature that does not check, then \<open>now >= exp\<close>, each thrown
  as an error of its own class; otherwise the decoded payload.
\<close>

datatype jwt_error = JsonWebTokenError string | TokenExpiredError

definition jwt_verify :: "Libs \<Rightarrow> string \<Rightarrow> string \<Rightarrow> nat \<Rightarrow> jwt_error + TokenPayload" where
  "jwt_verify L token secret now =
     (case jwt_decode L token of
        None \<Rightarrow> Inl (JsonWebTokenError ''jwt malformed'')
      | Some payload \<Rightarrow>
          if \<not> jwt_signature_ok L token secret then Inl (JsonWebTokenError ''invalid signature'')
          else if now \<ge> tp_exp payload then Inl TokenExpiredError
          else Inr payload)"

section \<open>The store: \<open>prisma.user\<close>\<close>

text \<open>\<open>prisma.user.findUnique({where: {email}})\<close>.\<close>

definition prisma_user_findUnique :: "Database \<Rightarrow> string \<Rightarrow> User option" where
  "prisma_user_findUnique db email = find (\<lambda>u. u_email u = email) (users db)"

text \<open>
  \<open>prisma.user.create({data: {email, password, role}})\<close>. The store generates the
  identifier (\<open>newId\<close>) and the timestamps (\<open>now\<close>); a row that repeats an existing email
  or identifier violates a unique constraint and the call throws.
\<close>

record UserCreateInput =
  c_email :: string
  c_password :: string
  c_role :: Role

definition prisma_user_create ::
  "Database \<Rightarrow> string \<Rightarrow> nat \<Rightarrow> UserCreateInput \<Rightarrow> error + (User \<times> Database)" where
  "prisma_user_create db newId now d =
     (if list_ex (\<lambda>u. u_email u = c_email d \<or> u_id u = newId) (users db)
      then Inl (Error ''Unique constraint failed'')
      else
        let user = \<lparr>u_id = newId, u_email = c_email d, u_password = c_password d,
                    u_role = c_role d, u_createdAt = now, u_updatedAt = now\<rparr>
        in Inr (user, db\<lparr>users := users db @ [user]\<rparr>))"

section \<open>\<open>AuthService\<close>\<close>

record RegisterDTO =
  reg_email :: string
  reg_password :: string
  reg_role :: "Role option"

record LoginDTO =
  login_email :: string
  login_password :: string

record RegisterResult =
  userId :: string

text \<open>\<open>Partial<User>\<close>: every field of \<open>User\<close>, each optional.\<close>

record PartialUser =
  pu_id :: "string option"
  pu_email :: "string option"
  pu_password :: "string option"
  pu_role :: "Role option"
  pu_createdAt :: "nat option"
  pu_updatedAt :: "nat option"

record LoginResult =
  res_token :: string
  res_user :: PartialUser

text \<open>
  \<open>AuthService.register\<close>. Every operation that may write returns its outcome together
  with the store it leaves behind, also when it throws.
\<close>

definition register ::
  "Libs \<Rightarrow> Database \<Rightarrow> string \<Rightarrow> string \<Rightarrow> nat \<Rightarrow> RegisterDTO
     \<Rightarrow> (error + RegisterResult) \<times> Database" where
  "register L db salt newId now data =
     (case prisma_user_findUnique db (reg_email data) of
        Some existingUser \<Rightarrow> (Inl (AppError 409 CONFLICT ''User already exists'' None), db)
      | None \<Rightarrow>
          let hashedPassword = bcrypt_hash L (reg_password data) 10 salt in
          (case prisma_user_create db newId now
                  \<lparr>c_email = reg_email data, c_password = hashedPassword,
                   c_role = (case reg_role data of Some r \<Rightarrow> r | None \<Rightarrow> USER)\<rparr> of
             Inl e \<Rightarrow> (Inl e, db)
           | Inr (user, db') \<Rightarrow> (Inr \<lparr>userId = u_id user\<rparr>, db')))"

text \<open>\<open>AuthService.login\<close>; it only reads the store.\<close>

definition login :: "Libs \<Rightarrow> Config \<Rightarrow> Database \<Rightarrow> nat \<Rightarrow> LoginDTO \<Rightarrow> error + LoginResult" where
  "login L cfg db now data =
     (case prisma_user_findUnique db (login_email data) of
        None \<Rightarrow> Inl (AppError 401 AUTH_FAILED ''Invalid credentials'' None)
      | Some usr \<Rightarrow>
          if \<not> bcrypt_compare L (login_password data) (u_password usr)
          then Inl (AppError 401 AUTH_FAILED ''Invalid credentials'' None)
          else Inr \<lparr>res_token = jwt_sign L (u_id usr, u_role usr) (jwt_secret cfg) (jwt_expiry cfg) now,
                    res_user = \<lparr>pu_id = Some (u_id usr), pu_email = Some (u_email usr),
                            pu_password = None, pu_role = Some (u_role usr),
                            pu_createdAt = None, pu_updatedAt = None\<rparr>\<rparr>)"

text \<open>\<open>AuthService.verifyToken\<close>: whatever \<open>jwt.verify\<close> throws is caught and replaced.\<close>

definition verifyToken :: "Libs \<Rightarrow> Config \<Rightarrow> nat \<Rightarrow> string \<Rightarrow> error + TokenPayload" where
  "verifyToken L cfg now tok =
     (case jwt_verify L tok (jwt_secret cfg) now of
        Inr payload \<Rightarrow> Inr payload
      | Inl e \<Rightarrow> Inl (AppError 401 INVALID_TOKEN ''Invalid or expired token'' None))"

section \<open>\<open>TaskService\<close>\<close>

text \<open>
  A JavaScript number: the finite doubles are rationals; the model does not round and
  does not tell \<open>-0\<close> from \<open>0\<close>.
\<close>

datatype jsnum = NaN | PosInfinity | NegInfinity | Fin rat

record UpdateTaskDTO =
  ut_title :: "string option"
  ut_description :: "string option option"
  ut_status :: "TaskStatus option"

record PaginationParams =
  page :: int
  limit :: int

record Pagination =
  pg_page :: int
  pg_limit :: int
  pg_total :: nat
  pg_totalPages :: jsnum

record TaskPage =
  page_data :: "Task list"
  pagination :: Pagination

text \<open>
  \<open>prisma.task.findMany({where, skip, take, orderBy: {createdAt: 'desc'}})\<close>: the rows
  that satisfy \<open>where\<close>, newest first (rows of equal \<open>createdAt\<close> in store order, which
  SQL leaves open), then \<open>skip\<close> and \<open>take\<close>. Prisma rejects a negative \<open>skip\<close>; a
  negative \<open>take\<close> reads from the end of the ordering.
\<close>

definition orderBy_createdAt_desc :: "Task list \<Rightarrow> Task list" where
  "orderBy_createdAt_desc ts = sort_key (\<lambda>t. - int (t_createdAt t)) ts"

definition prisma_task_findMany ::
  "Database \<Rightarrow> (Task \<Rightarrow> bool) \<Rightarrow> int \<Rightarrow> int \<Rightarrow> error + Task list" where
  "prisma_task_findMany db wh skip tk =
     (if skip < 0 then Inl (Error ''Invalid value for argument skip'')
      else
        let rows = orderBy_createdAt_desc (filter wh (tasks db)) in
        if tk \<ge> 0 then Inr (take (nat tk) (drop (nat skip) rows))
        else Inr (rev (take (nat (- tk)) (drop (nat skip) (rev rows)))))"

definition prisma_task_count :: "Database \<Rightarrow> (Task \<Rightarrow> bool) \<Rightarrow> nat" where
  "prisma_task_count db wh = length (filter wh (tasks db))"

text \<open>\<open>prisma.task.findFirst({where: {id, userId}})\<close>.\<close>

definition prisma_task_findFirst :: "Database \<Rightarrow> string \<Rightarrow> string \<Rightarrow> Task option" where
  "prisma_task_findFirst db taskId uid =
     find (\<lambda>t. t_id t = taskId \<and> t_userId t = uid) (tasks db)"

text \<open>
  \<open>prisma.task.update({where: {id}, data})\<close> and \<open>prisma.task.delete({where: {id}})\<close>:
  the statement acts on the rows whose \<open>id\<close> is the given one and throws when there is
  none. An update writes the fields that \<open>data\<close> defines and refreshes \<open>updatedAt\<close>.
\<close>

definition apply_update :: "UpdateTaskDTO \<Rightarrow> nat \<Rightarrow> Task \<Rightarrow> Task" where
  "apply_update data now t =
     t\<lparr>t_title := (case ut_title data of Some x \<Rightarrow> x | None \<Rightarrow> t_title t),
       t_description := (case ut_description data of Some d \<Rightarrow> d | None \<Rightarrow> t_description t),
       t_status := (case ut_status data of Some x \<Rightarrow> x | None \<Rightarrow> t_status t),
       t_updatedAt := now\<rparr>"

definition prisma_task_update ::
  "Database \<Rightarrow> nat \<Rightarrow> string \<Rightarrow> UpdateTaskDTO \<Rightarrow> (error + Task) \<times> Database" where
  "prisma_task_update db now taskId data =
     (case find (\<lambda>t. t_id t = taskId) (tasks db) of
        None \<Rightarrow> (Inl (Error ''Record to update not found''), db)
      | Some t \<Rightarrow>
          (Inr (apply_update data now t),
           db\<lparr>tasks := map (\<lambda>x. if t_id x = taskId then apply_update data now x else x) (tasks db)\<rparr>))"

definition prisma_task_delete :: "Database \<Rightarrow> string \<Rightarrow> (error + Task) \<times> Database" where
  "prisma_task_delete db taskId =
     (case find (\<lambda>t. t_id t = taskId) (tasks db) of
        None \<Rightarrow> (Inl (Error ''Record to delete does not exist''), db)
      | Some t \<Rightarrow> (Inr t, db\<lparr>tasks := filter (\<lambda>x. t_id x \<noteq> taskId) (tasks db)\<rparr>))"

text \<open>\<open>Math.ceil(total / limit)\<close> on a count and an integer, as JavaScript computes it.\<close>

definition ceil_div :: "nat \<Rightarrow> int \<Rightarrow> jsnum" where
  "ceil_div n d =
     (if d = 0 then (if n = 0 then NaN else PosInfinity)
      else Fin (of_int \<lceil>(of_nat n :: rat) / of_int d\<rceil>))"

definition getTasks :: "Database \<Rightarrow> string \<Rightarrow> PaginationParams \<Rightarrow> error + TaskPage" where
  "getTasks db uid ps =
     (let skip = (page ps - 1) * limit ps in
      case prisma_task_findMany db (\<lambda>t. t_userId t = uid) skip (limit ps) of
        Inl e \<Rightarrow> Inl e
      | Inr ts \<Rightarrow>
          let total' = prisma_task_count db (\<lambda>t. t_userId t = uid) in
          Inr \<lparr>page_data = ts,
               pagination = \<lparr>pg_page = page ps, pg_limit = limit ps, pg_total = total',
                             pg_totalPages = ceil_div total' (limit ps)\<rparr>\<rparr>)"

definition getTaskById :: "Database \<Rightarrow> string \<Rightarrow> string \<Rightarrow> error + Task" where
  "getTaskById db taskId uid =
     (case prisma_task_findFirst db taskId uid of
        None \<Rightarrow> Inl (AppError 404 NOT_FOUND ''Task not found'' None)
      | Some t \<Rightarrow> Inr t)"

definition updateTask ::
  "Database \<Rightarrow> nat \<Rightarrow> string \<Rightarrow> string \<Rightarrow> UpdateTaskDTO \<Rightarrow> (error + Task) \<times> Database" where
  "updateTask db now taskId uid data =
     (case getTaskById db taskId uid of
        Inl e \<Rightarrow> (Inl e, db)
      | Inr t \<Rightarrow> prisma_task_update db now (t_id t) data)"

definition deleteTask :: "Database \<Rightarrow> string \<Rightarrow> string \<Rightarrow> (error + unit) \<times> Database" where
  "deleteTask db taskId uid =
     (case getTaskById db taskId uid of
        Inl e \<Rightarrow> (Inl e, db)
      | Inr t \<Rightarrow>
          (case prisma_task_delete db (t_id t) of
             (Inl e, db') \<Rightarrow> (Inl e, db')
           | (Inr _, db') \<Rightarrow> (Inr (), db')))"

text \<open>
  \<open>TaskService.createTask\<close> over \<open>prisma.task.create\<close>. The store generates the
  identifier and the timestamps; the row must have a new identifier and an owner that
  exists (\<open>Task.user\<close> is a relation), otherwise the call throws.
\<close>

record CreateTaskDTO =
  ct_title :: string
  ct_description :: "string option option"
  ct_status :: "TaskStatus option"

definition prisma_task_create ::
  "Database \<Rightarrow> string \<Rightarrow> nat \<Rightarrow> string \<Rightarrow> string option \<Rightarrow> TaskStatus \<Rightarrow> string
     \<Rightarrow> (error + Task) \<times> Database" where
  "prisma_task_create db newId now title description st uid =
     (if list_ex (\<lambda>t. t_id t = newId) (tasks db)
      then (Inl (Error ''Unique constraint failed''), db)
      else if \<not> list_ex (\<lambda>u. u_id u = uid) (users db)
      then (Inl (Error ''Foreign key constraint failed''), db)
      else
        let task = \<lparr>t_id = newId, t_title = title, t_description = description, t_status = st,
                    t_userId = uid, t_createdAt = now, t_updatedAt = now\<rparr>
        in (Inr task, db\<lparr>tasks := tasks db @ [task]\<rparr>))"

definition createTask ::
  "Database \<Rightarrow> string \<Rightarrow> nat \<Rightarrow> string \<Rightarrow> CreateTaskDTO \<Rightarrow> (error + Task) \<times> Database" where
  "createTask db newId now uid data =
     prisma_task_create db newId now (ct_title data)
       (case ct_description data of Some d \<Rightarrow> d | None \<Rightarrow> None)
       (case ct_status data of Some x \<Rightarrow> x | None \<Rightarrow> PENDING)
       uid"

section \<open>Requests and middleware\<close>

text \<open>
  A JSON value as a handler sees it; \<open>JOther\<close> stands for arrays and nested objects,
  which no schema below accepts. An object is a partial map from its keys; a key that is
  absent reads \<open>undefined\<close>.
\<close>

datatype jsvalue = JNull | JBool bool | JNumber jsnum | JString string | JOther

type_synonym jsobject = "string \<rightharpoonup> jsvalue"

record ReqUser =
  ru_id :: string
  ru_role :: Role

text \<open>
  \<open>AuthRequest\<close>: the header \<open>req.headers.authorization\<close>, the three properties that
  \<open>validate\<close> reads (\<open>query\<close> is the query string of the URL, parsed), and \<open>req.user\<close>.
\<close>

record AuthRequest =
  authorization :: "string option"
  body :: jsobject
  query :: jsobject
  params :: jsobject
  req_user :: "ReqUser option"

text \<open>
  A middleware either calls \<open>next()\<close> or hands an error to Express (\<open>next(error)\<close> or a
  \<open>throw\<close>); the model returns that error, if any, and the request as the middleware
  leaves it.
\<close>

type_synonym middleware = "AuthRequest \<Rightarrow> error option \<times> AuthRequest"

text \<open>
  \<open>authenticate\<close>, with the token verifier as an argument; \<open>authenticate\<close> itself
  passes \<open>authService.verifyToken\<close>.
\<close>

definition authenticate_with :: "(string \<Rightarrow> error + TokenPayload) \<Rightarrow> middleware" where
  "authenticate_with verify req =
     (case authorization req of
        None \<Rightarrow> (Some (AppError 401 INVALID_TOKEN ''No token provided'' None), req)
      | Some authHeader \<Rightarrow>
          if authHeader = [] \<or> \<not> prefix ''Bearer '' authHeader
          then (Some (AppError 401 INVALID_TOKEN ''No token provided'' None), req)
          else
            (case verify (drop 7 authHeader) of
               Inl e \<Rightarrow> (Some e, req)
             | Inr payload \<Rightarrow>
                 (None, req\<lparr>req_user := Some \<lparr>ru_id = tp_sub payload, ru_role = tp_role payload\<rparr>\<rparr>)))"

definition authenticate :: "Libs \<Rightarrow> Config \<Rightarrow> nat \<Rightarrow> middleware" where
  "authenticate L cfg now = authenticate_with (verifyToken L cfg now)"

definition requireRole :: "Role list \<Rightarrow> middleware" where
  "requireRole roles req =
     (case req_user req of
        None \<Rightarrow> (Some (AppError 401 INVALID_TOKEN ''Not authenticated'' None), req)
      | Some u \<Rightarrow>
          if ru_role u \<notin> set roles
          then (Some (AppError 403 FORBIDDEN ''Insufficient permissions'' None), req)
          else (None, req))"

text \<open>\<open>errorHandler\<close>: the status and the \<open>error\<close> envelope of the response.\<close>

record ErrorResponse =
  status :: nat
  err_code :: errorCode
  err_message :: string
  err_details :: "ErrorDetail list option"

definition errorHandler :: "error \<Rightarrow> ErrorResponse" where
  "errorHandler err =
     (case err of
        AppError s c m d \<Rightarrow> \<lparr>status = s, err_code = c, err_message = m, err_details = d\<rparr>
      | Error _ \<Rightarrow>
          \<lparr>status = 500, err_code = INTERNAL_ERROR,
           err_message = ''An unexpected error occurred'', err_details = None\<rparr>)"

text \<open>
  How Express runs the middlewares of a route in front of its handler: in order, each on
  the request the previous one left; the first error skips everything that follows and
  goes to \<open>errorHandler\<close>.
\<close>

fun run_route :: "middleware list \<Rightarrow> (AuthRequest \<Rightarrow> 'r) \<Rightarrow> AuthRequest \<Rightarrow> ErrorResponse + 'r" where
  "run_route [] handler req = Inr (handler req)"
| "run_route (m # ms) handler req =
     (case m req of
        (Some e, _) \<Rightarrow> Inl (errorHandler e)
      | (None, req') \<Rightarrow> run_route ms handler req')"

section \<open>Validation\<close>

text \<open>
  The part of Joi that \<open>registerSchema\<close>, \<open>loginSchema\<close> and \<open>paginationSchema\<close> use.
  Three primitives are parameters: JavaScript's \<open>Number(s)\<close> on a string, Joi's own
  conversion of a string to a number (\<open>None\<close> when the string is not numeric, an error
  when the conversion loses digits), and Joi's test of an email address.
\<close>

record JsLibs =
  js_Number :: "string \<Rightarrow> jsnum"
  joi_coerce_number :: "string \<Rightarrow> (joi_error + jsnum) option"
  joi_isEmail :: "string \<Rightarrow> bool"

datatype joi_type =
  JoiString (str_min: "nat option") (str_email: bool)
  | JoiNumber (num_integer: bool) (num_min: "int option") (num_max: "int option")

text \<open>
  One key of a \<open>Joi.object\<close>: its type with the rules, \<open>.valid(...)\<close>, \<open>.required()\<close>
  (a key is optional otherwise) and \<open>.default(...)\<close>.
\<close>

record joi_key =
  key_type :: joi_type
  key_valid :: "string list option"
  key_required :: bool
  key_default :: "jsvalue option"

record joi_object =
  keys :: "(string \<times> joi_key) list"
  unknown :: bool


definition loginSchema :: joi_object where
  "loginSchema =
     \<lparr>keys =
        [(''email'', \<lparr>key_type = JoiString None True, key_valid = None,
                      key_required = True, key_default = None\<rparr>),
         (''password'', \<lparr>key_type = JoiString None False, key_valid = None,
                         key_required = True, key_default = None\<rparr>)],
      unknown = False\<rparr>"

definition paginationSchema :: joi_object where
  "paginationSchema =
     \<lparr>keys =
        [(''page'', \<lparr>key_type = JoiNumber True (Some 1) None, key_valid = None,
                     key_required = False, key_default = Some (JNumber (Fin 1))\<rparr>),
         (''limit'', \<lparr>key_type = JoiNumber True (Some 1) (Some 100), key_valid = None,
                      key_required = False, key_default = Some (JNumber (Fin 10))\<rparr>)],
      unknown = True\<rparr>"

text \<open>
  \<open>Joi.string()\<close>: anything but a string, and the empty string, is an error of the type
  itself, after which no rule runs; then \<open>min\<close> and \<open>email\<close>, all errors collected
  (\<open>abortEarly: false\<close>).
\<close>

definition joi_string :: "JsLibs \<Rightarrow> nat option \<Rightarrow> bool \<Rightarrow> jsvalue \<Rightarrow> joi_error list + jsvalue" where
  "joi_string J mn em v =
     (case v of
        JString s \<Rightarrow>
          if s = [] then Inl [string_empty]
          else
            let errs = (case mn of Some n \<Rightarrow> (if length s < n then [string_min] else []) | None \<Rightarrow> [])
                     @ (if em \<and> \<not> joi_isEmail J s then [string_email] else [])
            in if errs = [] then Inr v else Inl errs
      | _ \<Rightarrow> Inl [string_base])"

text \<open>
  \<open>Joi.number()\<close>: a string is converted first (\<open>convert\<close> is on by default). Infinity,
  anything that is not a number, and a number outside the safe integers are errors of the
  type itself; then \<open>integer\<close>, \<open>min\<close> and \<open>max\<close>.
\<close>

definition MAX_SAFE_INTEGER :: rat where
  "MAX_SAFE_INTEGER = 2 ^ 53 - 1"

definition joi_number_rules :: "bool \<Rightarrow> int option \<Rightarrow> int option \<Rightarrow> jsnum \<Rightarrow> joi_error list + jsvalue" where
  "joi_number_rules isint mn mx n =
     (case n of
        PosInfinity \<Rightarrow> Inl [number_infinity]
      | NegInfinity \<Rightarrow> Inl [number_infinity]
      | NaN \<Rightarrow> Inl [number_base]
      | Fin r \<Rightarrow>
          if r > MAX_SAFE_INTEGER \<or> r < - MAX_SAFE_INTEGER then Inl [number_unsafe]
          else
            let errs = (if isint \<and> of_int \<lfloor>r\<rfloor> \<noteq> r then [number_integer] else [])
                     @ (case mn of Some lo \<Rightarrow> (if r < of_int lo then [number_min] else []) | None \<Rightarrow> [])
                     @ (case mx of Some hi \<Rightarrow> (if r > of_int hi then [number_max] else []) | None \<Rightarrow> [])
            in if errs = [] then Inr (JNumber n) else Inl errs)"

definition joi_number :: "JsLibs \<Rightarrow> bool \<Rightarrow> int option \<Rightarrow> int option \<Rightarrow> jsvalue \<Rightarrow> joi_error list + jsvalue" where
  "joi_number J isint mn mx v =
     (case v of
        JNumber n \<Rightarrow> joi_number_rules isint mn mx n
      | JString s \<Rightarrow>
          (case joi_coerce_number J s of
             None \<Rightarrow> Inl [number_base]
           | Some (Inl e) \<Rightarrow> Inl [e]
           | Some (Inr n) \<Rightarrow> joi_number_rules isint mn mx n)
      | _ \<Rightarrow> Inl [number_base])"

definition joi_typed :: "JsLibs \<Rightarrow> joi_type \<Rightarrow> jsvalue \<Rightarrow> joi_error list + jsvalue" where
  "joi_typed J ty v =
     (case ty of
        JoiString mn em \<Rightarrow> joi_string J mn em v
      | JoiNumber isint mn mx \<Rightarrow> joi_number J isint mn mx v)"

text \<open>
  One key: \<open>undefined\<close> is an error when required and becomes the default otherwise; a
  value listed by \<open>.valid\<close> is accepted as it is, any other value is \<open>any.only\<close> and is
  still checked against the type.
\<close>

definition joi_validate_key :: "JsLibs \<Rightarrow> joi_key \<Rightarrow> jsvalue option \<Rightarrow> joi_error list + jsvalue option" where
  "joi_validate_key J k v =
     (case v of
        None \<Rightarrow> if key_required k then Inl [any_required] else Inr (key_default k)
      | Some x \<Rightarrow>
          (case key_valid k of
             Some vs \<Rightarrow>
               if x \<in> JString ` set vs then Inr (Some x)
               else (case joi_typed J (key_type k) x of
                       Inl errs \<Rightarrow> Inl (any_only # errs)
                     | Inr _ \<Rightarrow> Inl [any_only])
           | None \<Rightarrow>
               (case joi_typed J (key_type k) x of
                  Inl errs \<Rightarrow> Inl errs
                | Inr y \<Rightarrow> Inr (Some y))))"

text \<open>
  \<open>schema.validate(obj, {abortEarly: false, stripUnknown: true})\<close>: the errors of all
  keys in the order of the schema, or else the validated object. A key the schema does
  not declare is kept when the schema is \<open>.unknown(true)\<close> and stripped otherwise.
\<close>

definition joi_errors :: "JsLibs \<Rightarrow> joi_object \<Rightarrow> jsobject \<Rightarrow> ErrorDetail list" where
  "joi_errors J schema obj =
     concat (map (\<lambda>(name, k).
                    case joi_validate_key J k (obj name) of
                      Inl errs \<Rightarrow> map (\<lambda>e. \<lparr>field = name, detail_message = e\<rparr>) errs
                    | Inr _ \<Rightarrow> [])
                 (keys schema))"

definition joi_value :: "JsLibs \<Rightarrow> joi_object \<Rightarrow> jsobject \<Rightarrow> jsobject" where
  "joi_value J schema obj =
     (\<lambda>name. case map_of (keys schema) name of
                Some k \<Rightarrow> (case joi_validate_key J k (obj name) of Inr v \<Rightarrow> v | Inl _ \<Rightarrow> None)
              | None \<Rightarrow> if unknown schema then obj name else None)"

definition joi_validate :: "JsLibs \<Rightarrow> joi_object \<Rightarrow> jsobject \<Rightarrow> ErrorDetail list + jsobject" where
  "joi_validate J schema obj =
     (let errs = joi_errors J schema obj in
      if errs \<noteq> [] then Inl errs else Inr (joi_value J schema obj))"

text \<open>
  \<open>req.query\<close> belongs to Express, and what a write to it does depends on the version.
  In Express 4 it is a property of the request, set once, and \<open>Object.assign(req.query,
  value)\<close> changes what the handler reads later. In Express 5 it is a getter that parses
  the query string of the URL again at every access: \<open>Object.assign\<close> writes to the
  object of that one access, and the next access does not see the write. The repository
  runs on Express 5 (its README lists it, and the comment in \<open>validate\<close> names it).
\<close>

datatype express = Express4 | Express5

definition Object_assign_query :: "express \<Rightarrow> AuthRequest \<Rightarrow> jsobject \<Rightarrow> AuthRequest" where
  "Object_assign_query fw req v =
     (case fw of
        Express4 \<Rightarrow> req\<lparr>query := query req ++ v\<rparr>
      | Express5 \<Rightarrow> req)"

text \<open>
  The middleware \<open>validate(schema, property)\<close>. For the query, every string that
  \<open>Number\<close> reads as a number is replaced by that number before validation, and the
  validated values are assigned onto \<open>req.query\<close>; the body and the params are replaced
  by the validated object.
\<close>

datatype property = Body | Query | Params

definition query_to_numbers :: "JsLibs \<Rightarrow> jsobject \<Rightarrow> jsobject" where
  "query_to_numbers J q =
     (\<lambda>name. case q name of
                Some (JString s) \<Rightarrow>
                  if js_Number J s \<noteq> NaN then Some (JNumber (js_Number J s)) else Some (JString s)
              | other \<Rightarrow> other)"

definition validate :: "express \<Rightarrow> JsLibs \<Rightarrow> joi_object \<Rightarrow> property \<Rightarrow> middleware" where
  "validate fw J schema prop req =
     (let dataToValidate =
            (case prop of
               Query \<Rightarrow> query_to_numbers J (query req)
             | Body \<Rightarrow> body req
             | Params \<Rightarrow> params req)
      in case joi_validate J schema dataToValidate of
           Inl ds \<Rightarrow> (Some (AppError 400 VALIDATION_ERROR ''Validation failed'' (Some ds)), req)
         | Inr v \<Rightarrow>
             (None,
              case prop of
                Query \<Rightarrow> Object_assign_query fw req v
              | Body \<Rightarrow> req\<lparr>body := v\<rparr>
              | Params \<Rightarrow> req\<lparr>params := v\<rparr>))"



definition as_int :: "jsvalue option \<Rightarrow> int option" where
  "as_int v =
     (case v of
        Some (JNumber (Fin r)) \<Rightarrow> if of_int \<lfloor>r\<rfloor> = r then Some \<lfloor>r\<rfloor> else None
      | _ \<Rightarrow> None)"

definition as_PaginationParams :: "jsobject \<Rightarrow> PaginationParams option" where
  "as_PaginationParams q =
     (case (as_int (q ''page''), as_int (q ''limit'')) of
        (Some p, Some l) \<Rightarrow> Some \<lparr>page = p, limit = l\<rparr>
      | _ \<Rightarrow> None)"

section \<open>Registration, login and tokens\<close>

lemma findUnique_Some_iff:
  "prisma_user_findUnique db email \<noteq> None \<longleftrightarrow> (\<exists>u\<in>set (users db). u_email u = email)"
  by (auto simp add: prisma_user_findUnique_def find_None_iff)








text \<open>
  C3. When the store already holds a user with the email, \<open>register\<close> fails with
  \<open>AppError(409, CONFLICT)\<close> and leaves the store as it was: nothing is written.
\<close>

theorem register_duplicate_email_conflict:
  assumes "u \<in> set (users db)" and "u_email u = reg_email data"
  shows "register L db salt newId now data =
           (Inl (AppError 409 CONFLICT ''User already exists'' None), db)"
proof -
  from assms have "prisma_user_findUnique db (reg_email data) \<noteq> None"
    using findUnique_Some_iff [of db "reg_email data"] by blast
  then obtain v where "prisma_user_findUnique db (reg_email data) = Some v"
    by blast
  then show ?thesis
    by (simp add: register_def)
qed

theorem register_duplicate_email_conflict_witness:
  "register
     \<lparr>bcrypt_hash = (\<lambda>d n s. s @ d), bcrypt_compare = (\<lambda>d e. e = ''salt'' @ d),
      jwt_encode = (\<lambda>p s. tp_sub p), jwt_decode = (\<lambda>t. None),
      jwt_signature_ok = (\<lambda>t s. True)\<rparr>
     \<lparr>users = [\<lparr>u_id = ''id-1'', u_email = ''test@example.com'', u_password = ''h'',
                u_role = USER, u_createdAt = 1, u_updatedAt = 1\<rparr>], tasks = []\<rparr>
     ''salt'' ''id-2'' 2
     \<lparr>reg_email = ''test@example.com'', reg_password = ''Test@123'', reg_role = Some ADMIN\<rparr>
   = (Inl (AppError 409 CONFLICT ''User already exists'' None),
      \<lparr>users = [\<lparr>u_id = ''id-1'', u_email = ''test@example.com'', u_password = ''h'',
                 u_role = USER, u_createdAt = 1, u_updatedAt = 1\<rparr>], tasks = []\<rparr>)"
  by (rule register_duplicate_email_conflict
        [of "\<lparr>u_id = ''id-1'', u_email = ''test@example.com'', u_password = ''h'',
              u_role = USER, u_createdAt = 1, u_updatedAt = 1\<rparr>"]) simp_all

text \<open>
  C4. \<open>login\<close> with an email the store does not hold, and \<open>login\<close> with an email it
  holds and a password that bcrypt does not accept for the stored hash, fail with the
  same error value, \<open>AppError(401, AUTH_FAILED, 'Invalid credentials')\<close>: the result does
  not tell the two causes apart.
\<close>

theorem login_failures_indistinguishable:
  assumes "prisma_user_findUnique db (login_email d1) = None"
    and "prisma_user_findUnique db (login_email d2) = Some u"
    and "\<not> bcrypt_compare L (login_password d2) (u_password u)"
  shows "login L cfg db now1 d1 = Inl (AppError 401 AUTH_FAILED ''Invalid credentials'' None)
       \<and> login L cfg db now2 d2 = Inl (AppError 401 AUTH_FAILED ''Invalid credentials'' None)
       \<and> login L cfg db now1 d1 = login L cfg db now2 d2"
  using assms by (simp add: login_def)

theorem login_failures_indistinguishable_witness:
  "login
     \<lparr>bcrypt_hash = (\<lambda>d n s. s @ d), bcrypt_compare = (\<lambda>d e. e = ''salt'' @ d),
      jwt_encode = (\<lambda>p s. tp_sub p), jwt_decode = (\<lambda>t. None),
      jwt_signature_ok = (\<lambda>t s. True)\<rparr>
     \<lparr>jwt_secret = ''secret'', jwt_expiry = 900\<rparr>
     \<lparr>users = [\<lparr>u_id = ''id-1'', u_email = ''test@example.com'', u_password = ''saltTest@123'',
                u_role = USER, u_createdAt = 1, u_updatedAt = 1\<rparr>], tasks = []\<rparr>
     5 \<lparr>login_email = ''nonexistent@example.com'', login_password = ''Test@123''\<rparr>
   = Inl (AppError 401 AUTH_FAILED ''Invalid credentials'' None)
   \<and> login
     \<lparr>bcrypt_hash = (\<lambda>d n s. s @ d), bcrypt_compare = (\<lambda>d e. e = ''salt'' @ d),
      jwt_encode = (\<lambda>p s. tp_sub p), jwt_decode = (\<lambda>t. None),
      jwt_signature_ok = (\<lambda>t s. True)\<rparr>
     \<lparr>jwt_secret = ''secret'', jwt_expiry = 900\<rparr>
     \<lparr>users = [\<lparr>u_id = ''id-1'', u_email = ''test@example.com'', u_password = ''saltTest@123'',
                u_role = USER, u_createdAt = 1, u_updatedAt = 1\<rparr>], tasks = []\<rparr>
     6 \<lparr>login_email = ''test@example.com'', login_password = ''WrongPassword''\<rparr>
   = Inl (AppError 401 AUTH_FAILED ''Invalid credentials'' None)"
proof -
  let ?L = "\<lparr>bcrypt_hash = (\<lambda>d n s. s @ d), bcrypt_compare = (\<lambda>d e. e = ''salt'' @ d),
      jwt_encode = (\<lambda>p s. tp_sub p), jwt_decode = (\<lambda>t. None),
      jwt_signature_ok = (\<lambda>t s. True)\<rparr>"
  let ?u = "\<lparr>u_id = ''id-1'', u_email = ''test@example.com'', u_password = ''saltTest@123'',
                u_role = USER, u_createdAt = 1, u_updatedAt = 1\<rparr>"
  let ?db = "\<lparr>users = [?u], tasks = []\<rparr>"
  let ?d1 = "\<lparr>login_email = ''nonexistent@example.com'', login_password = ''Test@123''\<rparr>"
  let ?d2 = "\<lparr>login_email = ''test@example.com'', login_password = ''WrongPassword''\<rparr>"
  have h1: "prisma_user_findUnique ?db (login_email ?d1) = None"
    by (simp add: prisma_user_findUnique_def)
  have h2: "prisma_user_findUnique ?db (login_email ?d2) = Some ?u"
    by (simp add: prisma_user_findUnique_def)
  have h3: "\<not> bcrypt_compare ?L (login_password ?d2) (u_password ?u)"
    by simp
  note both = login_failures_indistinguishable [OF h1 h2 h3, of "\<lparr>jwt_secret = ''secret'', jwt_expiry = 900\<rparr>" 5 6]
  show ?thesis
    by (intro conjI) (rule both [THEN conjunct1], rule both [THEN conjunct2, THEN conjunct1])
qed

text \<open>
  C7. A successful \<open>login\<close> returns exactly the token signed for the stored user's id and
  role, and a user summary that defines \<open>id\<close>, \<open>email\<close> and \<open>role\<close> and nothing else:
  the password hash is not in the result.
\<close>

theorem login_result_shape:
  assumes "login L cfg db now data = Inr res"
  shows "\<exists>u. prisma_user_findUnique db (login_email data) = Some u
             \<and> bcrypt_compare L (login_password data) (u_password u)
             \<and> res = \<lparr>res_token = jwt_sign L (u_id u, u_role u) (jwt_secret cfg) (jwt_expiry cfg) now,
                      res_user = \<lparr>pu_id = Some (u_id u), pu_email = Some (u_email u),
                                  pu_password = None, pu_role = Some (u_role u),
                                  pu_createdAt = None, pu_updatedAt = None\<rparr>\<rparr>"
  using assms by (auto simp add: login_def split: option.splits if_splits)

theorem login_result_shape_witness:
  "login
     \<lparr>bcrypt_hash = (\<lambda>d n s. s @ d), bcrypt_compare = (\<lambda>d e. e = ''salt'' @ d),
      jwt_encode = (\<lambda>p s. tp_sub p), jwt_decode = (\<lambda>t. None),
      jwt_signature_ok = (\<lambda>t s. True)\<rparr>
     \<lparr>jwt_secret = ''secret'', jwt_expiry = 900\<rparr>
     \<lparr>users = [\<lparr>u_id = ''id-1'', u_email = ''test@example.com'', u_password = ''saltTest@123'',
                u_role = USER, u_createdAt = 1, u_updatedAt = 1\<rparr>], tasks = []\<rparr>
     5 \<lparr>login_email = ''test@example.com'', login_password = ''Test@123''\<rparr>
   = Inr \<lparr>res_token = ''id-1'',
          res_user = \<lparr>pu_id = Some ''id-1'', pu_email = Some ''test@example.com'',
                      pu_password = None, pu_role = Some USER,
                      pu_createdAt = None, pu_updatedAt = None\<rparr>\<rparr>
   \<and> (\<exists>u. prisma_user_findUnique
           \<lparr>users = [\<lparr>u_id = ''id-1'', u_email = ''test@example.com'', u_password = ''saltTest@123'',
                      u_role = USER, u_createdAt = 1, u_updatedAt = 1\<rparr>], tasks = []\<rparr>
           ''test@example.com'' = Some u
      \<and> \<lparr>res_token = ''id-1'',
          res_user = \<lparr>pu_id = Some ''id-1'', pu_email = Some ''test@example.com'',
                      pu_password = None, pu_role = Some USER,
                      pu_createdAt = None, pu_updatedAt = None\<rparr>\<rparr>
        = \<lparr>res_token = ''id-1'',
           res_user = \<lparr>pu_id = Some (u_id u), pu_email = Some (u_email u),
                       pu_password = None, pu_role = Some (u_role u),
                       pu_createdAt = None, pu_updatedAt = None\<rparr>\<rparr>)"
proof -
  let ?L = "\<lparr>bcrypt_hash = (\<lambda>d n s. s @ d), bcrypt_compare = (\<lambda>d e. e = ''salt'' @ d),
      jwt_encode = (\<lambda>p s. tp_sub p), jwt_decode = (\<lambda>t. None),
      jwt_signature_ok = (\<lambda>t s. True)\<rparr>"
  let ?cfg = "\<lparr>jwt_secret = ''secret'', jwt_expiry = 900\<rparr>"
  let ?u = "\<lparr>u_id = ''id-1'', u_email = ''test@example.com'', u_password = ''saltTest@123'',
                u_role = USER, u_createdAt = 1, u_updatedAt = 1\<rparr>"
  let ?db = "\<lparr>users = [?u], tasks = []\<rparr>"
  let ?res = "\<lparr>res_token = ''id-1'',
          res_user = \<lparr>pu_id = Some ''id-1'', pu_email = Some ''test@example.com'',
                      pu_password = None, pu_role = Some USER,
                      pu_createdAt = None, pu_updatedAt = None\<rparr>\<rparr>"
  have h: "login ?L ?cfg ?db 5 \<lparr>login_email = ''test@example.com'', login_password = ''Test@123''\<rparr>
             = Inr ?res"
    by (simp add: login_def prisma_user_findUnique_def jwt_sign_def)
  from login_result_shape [OF h] have "\<exists>u. prisma_user_findUnique ?db ''test@example.com'' = Some u
      \<and> ?res = \<lparr>res_token = ''id-1'',
           res_user = \<lparr>pu_id = Some (u_id u), pu_email = Some (u_email u),
                       pu_password = None, pu_role = Some (u_role u),
                       pu_createdAt = None, pu_updatedAt = None\<rparr>\<rparr>"
    by (auto simp add: jwt_sign_def)
  with h show ?thesis
    by (intro conjI)
qed

text \<open>
  C5. \<open>requireRole(...roles)\<close>: with a user on the request whose role is not among
  \<open>roles\<close> it fails with \<open>AppError(403, FORBIDDEN)\<close>; with a user whose role is among
  them it calls \<open>next()\<close> and leaves the request as it is; with no user on the request
  it fails with \<open>AppError(401, INVALID_TOKEN, 'Not authenticated')\<close>, the same code a
  rejected token gets.
\<close>

theorem requireRole_decision:
  "(req_user req = None \<longrightarrow>
      requireRole roles req = (Some (AppError 401 INVALID_TOKEN ''Not authenticated'' None), req))
 \<and> (\<forall>u. req_user req = Some u \<and> ru_role u \<notin> set roles \<longrightarrow>
      requireRole roles req = (Some (AppError 403 FORBIDDEN ''Insufficient permissions'' None), req))
 \<and> (\<forall>u. req_user req = Some u \<and> ru_role u \<in> set roles \<longrightarrow>
      requireRole roles req = (None, req))"
  by (simp add: requireRole_def)

theorem requireRole_decision_witness:
  "requireRole [ADMIN]
     \<lparr>authorization = None, body = Map.empty, query = Map.empty, params = Map.empty,
      req_user = None\<rparr>
   = (Some (AppError 401 INVALID_TOKEN ''Not authenticated'' None),
      \<lparr>authorization = None, body = Map.empty, query = Map.empty, params = Map.empty,
       req_user = None\<rparr>)
 \<and> requireRole [ADMIN]
     \<lparr>authorization = None, body = Map.empty, query = Map.empty, params = Map.empty,
      req_user = Some \<lparr>ru_id = ''id-1'', ru_role = USER\<rparr>\<rparr>
   = (Some (AppError 403 FORBIDDEN ''Insufficient permissions'' None),
      \<lparr>authorization = None, body = Map.empty, query = Map.empty, params = Map.empty,
       req_user = Some \<lparr>ru_id = ''id-1'', ru_role = USER\<rparr>\<rparr>)
 \<and> requireRole [ADMIN]
     \<lparr>authorization = None, body = Map.empty, query = Map.empty, params = Map.empty,
      req_user = Some \<lparr>ru_id = ''id-0'', ru_role = ADMIN\<rparr>\<rparr>
   = (None,
      \<lparr>authorization = None, body = Map.empty, query = Map.empty, params = Map.empty,
       req_user = Some \<lparr>ru_id = ''id-0'', ru_role = ADMIN\<rparr>\<rparr>)"
proof -
  let ?none = "\<lparr>authorization = None, body = Map.empty, query = Map.empty, params = Map.empty,
      req_user = None\<rparr>"
  let ?usr = "\<lparr>authorization = None, body = Map.empty, query = Map.empty, params = Map.empty,
      req_user = Some \<lparr>ru_id = ''id-1'', ru_role = USER\<rparr>\<rparr>"
  let ?adm = "\<lparr>authorization = None, body = Map.empty, query = Map.empty, params = Map.empty,
      req_user = Some \<lparr>ru_id = ''id-0'', ru_role = ADMIN\<rparr>\<rparr>"
  have w1: "requireRole [ADMIN] ?none = (Some (AppError 401 INVALID_TOKEN ''Not authenticated'' None), ?none)"
    using requireRole_decision [of ?none "[ADMIN]", THEN conjunct1] by simp
  have w2: "requireRole [ADMIN] ?usr = (Some (AppError 403 FORBIDDEN ''Insufficient permissions'' None), ?usr)"
    using requireRole_decision [of ?usr "[ADMIN]", THEN conjunct2, THEN conjunct1] by simp
  have w3: "requireRole [ADMIN] ?adm = (None, ?adm)"
    using requireRole_decision [of ?adm "[ADMIN]", THEN conjunct2, THEN conjunct2] by simp
  show ?thesis
    by (intro conjI) (rule w1, rule w2, rule w3)
qed

theorem requireRole_no_user_counterexample:
  "map_option code
     (fst (requireRole [ADMIN]
        \<lparr>authorization = None, body = Map.empty, query = Map.empty, params = Map.empty,
         req_user = None\<rparr>))
   = Some INVALID_TOKEN
 \<and> map_option code
     (fst (requireRole [ADMIN]
        \<lparr>authorization = None, body = Map.empty, query = Map.empty, params = Map.empty,
         req_user = None\<rparr>))
   \<noteq> Some UNAUTHENTICATED"
  by (simp add: requireRole_def)

text \<open>
  C6. When the \<open>Authorization\<close> header is missing or does not start with \<open>Bearer \<close>,
  \<open>authenticate\<close> hands \<open>AppError(401, INVALID_TOKEN, 'No token provided')\<close> to Express
  and leaves the request untouched, so no user is attached. The outcome is the same for
  every token verifier, hence the verifier is not consulted; and on any route that
  starts with \<open>authenticate\<close> the response is the 401 envelope whatever the later
  middlewares and the handler are, hence none of them runs.
\<close>

theorem authenticate_without_bearer:
  assumes "authorization req = None
         \<or> (\<exists>h. authorization req = Some h \<and> \<not> prefix ''Bearer '' h)"
  shows "authenticate_with verify req =
           (Some (AppError 401 INVALID_TOKEN ''No token provided'' None), req)
       \<and> authenticate L cfg now req =
           (Some (AppError 401 INVALID_TOKEN ''No token provided'' None), req)
       \<and> req_user (snd (authenticate L cfg now req)) = req_user req
       \<and> run_route (authenticate L cfg now # ms) handler req =
           Inl \<lparr>status = 401, err_code = INVALID_TOKEN, err_message = ''No token provided'',
                err_details = None\<rparr>"
proof -
  have a: "authenticate_with v req =
             (Some (AppError 401 INVALID_TOKEN ''No token provided'' None), req)" for v
    using assms by (auto simp add: authenticate_with_def)
  then have b: "authenticate L cfg now req =
             (Some (AppError 401 INVALID_TOKEN ''No token provided'' None), req)"
    by (simp add: authenticate_def)
  from a b show ?thesis
    by (simp add: errorHandler_def)
qed

theorem authenticate_without_bearer_witness:
  "authenticate_with (\<lambda>t. Inr \<lparr>tp_sub = ''id-0'', tp_role = ADMIN, tp_iat = 0, tp_exp = 1\<rparr>)
     \<lparr>authorization = Some ''Basic dXNlcjpwdw=='', body = Map.empty, query = Map.empty,
      params = Map.empty, req_user = None\<rparr>
   = (Some (AppError 401 INVALID_TOKEN ''No token provided'' None),
      \<lparr>authorization = Some ''Basic dXNlcjpwdw=='', body = Map.empty, query = Map.empty,
       params = Map.empty, req_user = None\<rparr>)
 \<and> run_route
     [authenticate
        \<lparr>bcrypt_hash = (\<lambda>d n s. s @ d), bcrypt_compare = (\<lambda>d e. e = ''salt'' @ d),
         jwt_encode = (\<lambda>p s. tp_sub p),
         jwt_decode = (\<lambda>t. Some \<lparr>tp_sub = t, tp_role = ADMIN, tp_iat = 5, tp_exp = 905\<rparr>),
         jwt_signature_ok = (\<lambda>t s. True)\<rparr>
        \<lparr>jwt_secret = ''secret'', jwt_expiry = 900\<rparr> 10]
     req_user
     \<lparr>authorization = None, body = Map.empty, query = Map.empty,
      params = Map.empty, req_user = None\<rparr>
   = Inl \<lparr>status = 401, err_code = INVALID_TOKEN, err_message = ''No token provided'',
          err_details = None\<rparr>"
proof -
  let ?basic = "\<lparr>authorization = Some ''Basic dXNlcjpwdw=='', body = Map.empty, query = Map.empty,
      params = Map.empty, req_user = None\<rparr>"
  let ?missing = "\<lparr>authorization = None, body = Map.empty, query = Map.empty,
      params = Map.empty, req_user = None\<rparr>"
  have h1: "authorization ?basic = None
         \<or> (\<exists>h. authorization ?basic = Some h \<and> \<not> prefix ''Bearer '' h)"
    by simp
  have h2: "authorization ?missing = None
         \<or> (\<exists>h. authorization ?missing = Some h \<and> \<not> prefix ''Bearer '' h)"
    by simp
  show ?thesis
    by (intro conjI)
       (rule authenticate_without_bearer [OF h1, THEN conjunct1],
        rule authenticate_without_bearer [OF h2, THEN conjunct2, THEN conjunct2, THEN conjunct2])
qed


section \<open>Authentication and roles on a route\<close>

text \<open>
  With a header \<open>Bearer \<close> followed by a token that verifies, \<open>authenticate\<close> attaches the
  subject and role of the token and calls \<open>next()\<close>; with a token that does not verify it
  hands on the error of \<open>verifyToken\<close>.
\<close>

lemma authenticate_bearer:
  "authenticate L cfg now (req\<lparr>authorization := Some (''Bearer '' @ tok)\<rparr>) =
     (case verifyToken L cfg now tok of
        Inl e \<Rightarrow> (Some e, req\<lparr>authorization := Some (''Bearer '' @ tok)\<rparr>)
      | Inr payload \<Rightarrow>
          (None, req\<lparr>authorization := Some (''Bearer '' @ tok),
                    req_user := Some \<lparr>ru_id = tp_sub payload, ru_role = tp_role payload\<rparr>\<rparr>))"
  by (simp add: authenticate_def authenticate_with_def split: sum.splits)

text \<open>
  The route \<open>GET /v1/tasks/all\<close> puts \<open>requireRole(Role.ADMIN)\<close> in front of its handler:
  a request that carries a \<open>USER\<close> identity is answered 403 and the handler does not run.
\<close>

lemma admin_route_forbidden_for_user:
  assumes "req_user req = Some u" and "ru_role u = USER"
  shows "run_route (requireRole [ADMIN] # ms) handler req =
           Inl \<lparr>status = 403, err_code = FORBIDDEN, err_message = ''Insufficient permissions'',
                err_details = None\<rparr>"
  using assms by (simp add: requireRole_def errorHandler_def)

section \<open>Invariants of the store\<close>

text \<open>
  The store keeps emails and identifiers unique. \<open>register\<close> preserves this for users,
  and the task operations preserve it for tasks, so the hypothesis of distinct task
  identifiers below holds in every store these operations can reach.
\<close>

lemma register_keeps_users_unique:
  assumes "distinct (map u_email (users db))" and "distinct (map u_id (users db))"
  shows "distinct (map u_email (users (snd (register L db salt newId now data))))
       \<and> distinct (map u_id (users (snd (register L db salt newId now data))))
       \<and> tasks (snd (register L db salt newId now data)) = tasks db"
proof (cases "prisma_user_findUnique db (reg_email data)")
  case (Some u)
  with assms show ?thesis
    by (simp add: register_def)
next
  case None
  show ?thesis
  proof (cases "list_ex (\<lambda>u. u_email u = reg_email data \<or> u_id u = newId) (users db)")
    case True
    with None assms show ?thesis
      by (simp add: register_def prisma_user_create_def)
  next
    case False
    then have "reg_email data \<notin> u_email ` set (users db)" and "newId \<notin> u_id ` set (users db)"
      by (auto simp add: list_ex_iff)
    with None False assms show ?thesis
      by (simp add: register_def prisma_user_create_def Let_def)
  qed
qed

lemma apply_update_id: "t_id (apply_update data now t) = t_id t"
  by (simp add: apply_update_def)

lemma apply_update_owner: "t_userId (apply_update data now t) = t_userId t"
  by (simp add: apply_update_def)

lemma createTask_keeps_ids_distinct:
  assumes "distinct (map t_id (tasks db))"
  shows "distinct (map t_id (tasks (snd (createTask db newId now uid data))))"
proof (cases "list_ex (\<lambda>t. t_id t = newId) (tasks db)")
  case True
  with assms show ?thesis
    by (simp add: createTask_def prisma_task_create_def)
next
  case False
  then have "newId \<notin> t_id ` set (tasks db)"
    by (auto simp add: list_ex_iff)
  with False assms show ?thesis
    by (simp add: createTask_def prisma_task_create_def Let_def)
qed

lemma createTask_keeps_tasks:
  assumes "t \<in> set (tasks db)"
  shows "t \<in> set (tasks (snd (createTask db newId now uid data)))"
  using assms by (simp add: createTask_def prisma_task_create_def Let_def)

lemma updateTask_keeps_ids_distinct:
  assumes "distinct (map t_id (tasks db))"
  shows "distinct (map t_id (tasks (snd (updateTask db now taskId uid data))))"
proof -
  have "t_id \<circ> (\<lambda>x. if t_id x = tid then apply_update data now x else x) = t_id" for tid
    by (auto simp add: fun_eq_iff apply_update_id)
  with assms show ?thesis
    by (simp add: updateTask_def prisma_task_update_def split: sum.splits option.splits)
qed

lemma deleteTask_keeps_ids_distinct:
  assumes "distinct (map t_id (tasks db))"
  shows "distinct (map t_id (tasks (snd (deleteTask db taskId uid))))"
  using assms
  by (simp add: deleteTask_def prisma_task_delete_def distinct_map_filter
           split: sum.splits option.splits)

section \<open>Task ownership\<close>

lemma findFirst_foreign_None:
  assumes "distinct (map t_id (tasks db))" and "t \<in> set (tasks db)" and "t_userId t \<noteq> uid"
  shows "prisma_task_findFirst db (t_id t) uid = None"
proof -
  have "inj_on t_id (set (tasks db))"
    using assms(1) by (simp add: distinct_map)
  then have "\<And>x. x \<in> set (tasks db) \<Longrightarrow> t_id x = t_id t \<Longrightarrow> x = t"
    using assms(2) by (auto dest: inj_onD)
  with assms(3) show ?thesis
    by (auto simp add: prisma_task_findFirst_def find_None_iff)
qed

lemma getTaskById_Inr:
  assumes "getTaskById db taskId uid = Inr x"
  shows "x \<in> set (tasks db) \<and> t_id x = taskId \<and> t_userId x = uid"
proof -
  from assms have "find (\<lambda>t. t_id t = taskId \<and> t_userId t = uid) (tasks db) = Some x"
    by (simp add: getTaskById_def prisma_task_findFirst_def split: option.splits)
  then show ?thesis
    by (auto simp add: find_Some_iff)
qed

lemma foreign_id_differs:
  assumes "distinct (map t_id (tasks db))" and "t \<in> set (tasks db)" and "t_userId t \<noteq> uid"
    and "getTaskById db taskId uid = Inr x"
  shows "t_id t \<noteq> taskId"
proof
  assume eq: "t_id t = taskId"
  have inj: "inj_on t_id (set (tasks db))"
    using assms(1) by (simp add: distinct_map)
  from getTaskById_Inr [OF assms(4)] have x: "x \<in> set (tasks db)" "t_id x = taskId" "t_userId x = uid"
    by simp_all
  with eq assms(2) inj have "x = t"
    by (auto dest: inj_onD)
  with x(3) assms(3) show False by simp
qed

lemma updateTask_keeps_foreign:
  assumes "distinct (map t_id (tasks db))" and "t \<in> set (tasks db)" and "t_userId t \<noteq> uid"
  shows "t \<in> set (tasks (snd (updateTask db now taskId uid data)))"
proof (cases "getTaskById db taskId uid")
  case (Inl e)
  with assms(2) show ?thesis by (simp add: updateTask_def)
next
  case (Inr x)
  from getTaskById_Inr [OF Inr] have x: "t_id x = taskId" by simp
  from foreign_id_differs [OF assms Inr] have ne: "t_id t \<noteq> taskId" .
  have mem: "t \<in> set (map (\<lambda>y. if t_id y = taskId then apply_update data now y else y) (tasks db))"
    using assms(2) ne by force
  show ?thesis
  proof (cases "find (\<lambda>t. t_id t = taskId) (tasks db)")
    case None
    then show ?thesis
      using Inr x assms(2) by (simp add: updateTask_def prisma_task_update_def)
  next
    case (Some y)
    then have "snd (updateTask db now taskId uid data) =
                 db\<lparr>tasks := map (\<lambda>y. if t_id y = taskId then apply_update data now y else y) (tasks db)\<rparr>"
      using Inr x by (simp add: updateTask_def prisma_task_update_def)
    then show ?thesis
      using mem by simp
  qed
qed

lemma deleteTask_keeps_foreign:
  assumes "distinct (map t_id (tasks db))" and "t \<in> set (tasks db)" and "t_userId t \<noteq> uid"
  shows "t \<in> set (tasks (snd (deleteTask db taskId uid)))"
proof (cases "getTaskById db taskId uid")
  case (Inl e)
  with assms(2) show ?thesis by (simp add: deleteTask_def)
next
  case (Inr x)
  from getTaskById_Inr [OF Inr] have x: "t_id x = taskId" by simp
  from foreign_id_differs [OF assms Inr] have ne: "t_id t \<noteq> taskId" .
  show ?thesis
    using Inr x assms(2) ne
    by (simp add: deleteTask_def prisma_task_delete_def split: option.splits)
qed

lemma findMany_subset:
  assumes "prisma_task_findMany db wh skip tk = Inr ts"
  shows "set ts \<subseteq> {x \<in> set (tasks db). wh x}"
proof -
  let ?rows = "orderBy_createdAt_desc (filter wh (tasks db))"
  have rows: "set ?rows = {x \<in> set (tasks db). wh x}"
    by (auto simp add: orderBy_createdAt_desc_def)
  from assms have "ts = take (nat tk) (drop (nat skip) ?rows)
                 \<or> ts = rev (take (nat (- tk)) (drop (nat skip) (rev ?rows)))"
    by (auto simp add: prisma_task_findMany_def Let_def split: if_splits)
  then have "set ts \<subseteq> set ?rows"
  proof
    assume "ts = take (nat tk) (drop (nat skip) ?rows)"
    then show ?thesis
      using set_take_subset [of "nat tk" "drop (nat skip) ?rows"] set_drop_subset [of "nat skip" ?rows]
      by auto
  next
    assume "ts = rev (take (nat (- tk)) (drop (nat skip) (rev ?rows)))"
    then show ?thesis
      using set_take_subset [of "nat (- tk)" "drop (nat skip) (rev ?rows)"]
            set_drop_subset [of "nat skip" "rev ?rows"]
      by auto
  qed
  with rows show ?thesis by simp
qed

lemma getTasks_own_only:
  assumes "getTasks db uid ps = Inr pg"
  shows "set (page_data pg) \<subseteq> {x \<in> set (tasks db). t_userId x = uid}"
proof -
  from assms obtain ts where
    "prisma_task_findMany db (\<lambda>t. t_userId t = uid) ((page ps - 1) * limit ps) (limit ps) = Inr ts"
    and "page_data pg = ts"
    by (auto simp add: getTasks_def Let_def split: sum.splits)
  with findMany_subset [of db "\<lambda>t. t_userId t = uid" "(page ps - 1) * limit ps" "limit ps" ts]
  show ?thesis by simp
qed

lemma getTasks_returns:
  assumes "1 \<le> page ps" and "0 \<le> limit ps"
  shows "\<exists>pg. getTasks db uid ps = Inr pg"
proof -
  from assms have "\<not> (page ps - 1) * limit ps < 0"
    by (simp add: not_less)
  then show ?thesis
    by (simp add: getTasks_def prisma_task_findMany_def Let_def)
qed

text \<open>
  C9. In a store whose task identifiers are distinct, let \<open>t\<close> be a task that does not
  belong to user \<open>uid\<close>. Then \<open>getTaskById\<close>, \<open>updateTask\<close> and \<open>deleteTask\<close> called
  by \<open>uid\<close> on the id of \<open>t\<close> fail with \<open>AppError(404, NOT_FOUND)\<close> and leave the store as
  it was. Whatever id \<open>uid\<close> names, \<open>getTaskById\<close> never returns \<open>t\<close>, and \<open>t\<close> is
  still in the store, unchanged, after \<open>updateTask\<close> and \<open>deleteTask\<close>. A page that
  \<open>getTasks\<close> returns to \<open>uid\<close> holds only stored tasks of \<open>uid\<close>, and \<open>getTasks\<close> does
  return a page when \<open>page \<ge> 1\<close> and \<open>limit \<ge> 0\<close>.
\<close>

theorem task_ownership_isolation:
  assumes "distinct (map t_id (tasks db))" and "t \<in> set (tasks db)" and "t_userId t \<noteq> uid"
  shows "getTaskById db (t_id t) uid = Inl (AppError 404 NOT_FOUND ''Task not found'' None)
       \<and> updateTask db now (t_id t) uid data =
           (Inl (AppError 404 NOT_FOUND ''Task not found'' None), db)
       \<and> deleteTask db (t_id t) uid =
           (Inl (AppError 404 NOT_FOUND ''Task not found'' None), db)
       \<and> getTaskById db taskId uid \<noteq> Inr t
       \<and> t \<in> set (tasks (snd (updateTask db now taskId uid data)))
       \<and> t \<in> set (tasks (snd (deleteTask db taskId uid)))
       \<and> (\<forall>pg. getTasks db uid ps = Inr pg \<longrightarrow>
             t \<notin> set (page_data pg)
             \<and> (\<forall>x\<in>set (page_data pg). x \<in> set (tasks db) \<and> t_userId x = uid))
       \<and> (1 \<le> page ps \<and> 0 \<le> limit ps \<longrightarrow> (\<exists>pg. getTasks db uid ps = Inr pg))"
proof -
  have nf: "getTaskById db (t_id t) uid = Inl (AppError 404 NOT_FOUND ''Task not found'' None)"
    using findFirst_foreign_None [OF assms] by (simp add: getTaskById_def)
  have upd: "updateTask db now (t_id t) uid data =
               (Inl (AppError 404 NOT_FOUND ''Task not found'' None), db)"
    using nf by (simp add: updateTask_def)
  have del: "deleteTask db (t_id t) uid =
               (Inl (AppError 404 NOT_FOUND ''Task not found'' None), db)"
    using nf by (simp add: deleteTask_def)
  have get: "getTaskById db taskId uid \<noteq> Inr t"
    using getTaskById_Inr [of db taskId uid t] assms(3) by blast
  have page: "\<forall>pg. getTasks db uid ps = Inr pg \<longrightarrow>
             t \<notin> set (page_data pg)
             \<and> (\<forall>x\<in>set (page_data pg). x \<in> set (tasks db) \<and> t_userId x = uid)"
    using getTasks_own_only [of db uid ps] assms(3) by blast
  have ret: "1 \<le> page ps \<and> 0 \<le> limit ps \<longrightarrow> (\<exists>pg. getTasks db uid ps = Inr pg)"
    using getTasks_returns [of ps db uid] by blast
  show ?thesis
    by (intro conjI)
       (rule nf, rule upd, rule del, rule get,
        rule updateTask_keeps_foreign [OF assms], rule deleteTask_keeps_foreign [OF assms],
        rule page, rule ret)
qed

theorem task_ownership_isolation_witness:
  "getTaskById
     \<lparr>users = [],
      tasks = [\<lparr>t_id = ''t1'', t_title = ''Complete project documentation'',
                t_description = None, t_status = PENDING, t_userId = ''user-1'',
                t_createdAt = 1, t_updatedAt = 1\<rparr>,
               \<lparr>t_id = ''t3'', t_title = ''Review pull requests'',
                t_description = None, t_status = COMPLETED, t_userId = ''admin-1'',
                t_createdAt = 2, t_updatedAt = 2\<rparr>]\<rparr>
     ''t3'' ''user-1''
   = Inl (AppError 404 NOT_FOUND ''Task not found'' None)
 \<and> deleteTask
     \<lparr>users = [],
      tasks = [\<lparr>t_id = ''t1'', t_title = ''Complete project documentation'',
                t_description = None, t_status = PENDING, t_userId = ''user-1'',
                t_createdAt = 1, t_updatedAt = 1\<rparr>,
               \<lparr>t_id = ''t3'', t_title = ''Review pull requests'',
                t_description = None, t_status = COMPLETED, t_userId = ''admin-1'',
                t_createdAt = 2, t_updatedAt = 2\<rparr>]\<rparr>
     ''t3'' ''user-1''
   = (Inl (AppError 404 NOT_FOUND ''Task not found'' None),
      \<lparr>users = [],
       tasks = [\<lparr>t_id = ''t1'', t_title = ''Complete project documentation'',
                 t_description = None, t_status = PENDING, t_userId = ''user-1'',
                 t_createdAt = 1, t_updatedAt = 1\<rparr>,
                \<lparr>t_id = ''t3'', t_title = ''Review pull requests'',
                 t_description = None, t_status = COMPLETED, t_userId = ''admin-1'',
                 t_createdAt = 2, t_updatedAt = 2\<rparr>]\<rparr>)
 \<and> \<lparr>t_id = ''t3'', t_title = ''Review pull requests'',
      t_description = None, t_status = COMPLETED, t_userId = ''admin-1'',
      t_createdAt = 2, t_updatedAt = 2\<rparr>
   \<in> set (tasks (snd (deleteTask
     \<lparr>users = [],
      tasks = [\<lparr>t_id = ''t1'', t_title = ''Complete project documentation'',
                t_description = None, t_status = PENDING, t_userId = ''user-1'',
                t_createdAt = 1, t_updatedAt = 1\<rparr>,
               \<lparr>t_id = ''t3'', t_title = ''Review pull requests'',
                t_description = None, t_status = COMPLETED, t_userId = ''admin-1'',
                t_createdAt = 2, t_updatedAt = 2\<rparr>]\<rparr>
     ''t1'' ''user-1'')))"
proof -
  let ?t1 = "\<lparr>t_id = ''t1'', t_title = ''Complete project documentation'',
                t_description = None, t_status = PENDING, t_userId = ''user-1'',
                t_createdAt = 1, t_updatedAt = 1\<rparr>"
  let ?t3 = "\<lparr>t_id = ''t3'', t_title = ''Review pull requests'',
                t_description = None, t_status = COMPLETED, t_userId = ''admin-1'',
                t_createdAt = 2, t_updatedAt = 2\<rparr>"
  let ?db = "\<lparr>users = [], tasks = [?t1, ?t3]\<rparr>"
  let ?data = "\<lparr>ut_title = Some ''x'', ut_description = None, ut_status = None\<rparr>"
  let ?ps = "\<lparr>page = 1, limit = 10\<rparr>"
  have h1: "distinct (map t_id (tasks ?db))" by simp
  have h2: "?t3 \<in> set (tasks ?db)" by simp
  have h3: "t_userId ?t3 \<noteq> ''user-1''" by simp
  note iso = task_ownership_isolation [OF h1 h2 h3, of 9 ?data "''t1''" ?ps]
  have w1: "getTaskById ?db ''t3'' ''user-1'' = Inl (AppError 404 NOT_FOUND ''Task not found'' None)"
    using iso [THEN conjunct1] by simp
  have w2: "deleteTask ?db ''t3'' ''user-1'' = (Inl (AppError 404 NOT_FOUND ''Task not found'' None), ?db)"
    using iso [THEN conjunct2, THEN conjunct2, THEN conjunct1] by simp
  have w3: "?t3 \<in> set (tasks (snd (deleteTask ?db ''t1'' ''user-1'')))"
    by (rule iso [THEN conjunct2, THEN conjunct2, THEN conjunct2, THEN conjunct2, THEN conjunct2,
                  THEN conjunct1])
  show ?thesis
    by (intro conjI) (rule w1, rule w2, rule w3)
qed

section \<open>Validation of requests\<close>

lemma joi_string_Inl_nonempty: "joi_string J mn em v = Inl errs \<Longrightarrow> errs \<noteq> []"
  by (cases v) (auto simp add: joi_string_def Let_def split: if_splits)

lemma joi_number_rules_Inl_nonempty: "joi_number_rules isint mn mx n = Inl errs \<Longrightarrow> errs \<noteq> []"
  by (cases n) (auto simp add: joi_number_rules_def Let_def split: if_splits)

lemma joi_number_Inl_nonempty: "joi_number J isint mn mx v = Inl errs \<Longrightarrow> errs \<noteq> []"
  by (cases v)
     (auto simp add: joi_number_def dest: joi_number_rules_Inl_nonempty split: option.splits sum.splits)

lemma joi_typed_Inl_nonempty: "joi_typed J ty v = Inl errs \<Longrightarrow> errs \<noteq> []"
  by (cases ty) (auto simp add: joi_typed_def dest: joi_string_Inl_nonempty joi_number_Inl_nonempty)

lemma joi_validate_key_Inl_nonempty: "joi_validate_key J k v = Inl errs \<Longrightarrow> errs \<noteq> []"
  by (auto simp add: joi_validate_key_def dest: joi_typed_Inl_nonempty
           split: option.splits if_splits sum.splits)

lemma joi_errors_Nil_iff:
  "joi_errors J schema obj = [] \<longleftrightarrow>
     (\<forall>(name, k)\<in>set (keys schema). \<exists>w. joi_validate_key J k (obj name) = Inr w)"
proof -
  have "(case joi_validate_key J k (obj name) of
           Inl errs \<Rightarrow> map (\<lambda>e. \<lparr>field = name, detail_message = e\<rparr>) errs
         | Inr _ \<Rightarrow> []) = [] \<longleftrightarrow> (\<exists>w. joi_validate_key J k (obj name) = Inr w)" for name k
    by (cases "joi_validate_key J k (obj name)") (auto dest: joi_validate_key_Inl_nonempty)
  then show ?thesis
    by (auto simp add: joi_errors_def split: prod.splits)
qed

lemma joi_validate_Inr_iff:
  "joi_validate J schema obj = Inr v \<longleftrightarrow>
     (\<forall>(name, k)\<in>set (keys schema). \<exists>w. joi_validate_key J k (obj name) = Inr w)
     \<and> v = joi_value J schema obj"
  using joi_errors_Nil_iff [of J schema obj]
  by (auto simp add: joi_validate_def Let_def)

lemma joi_number_rules_Inr:
  assumes "joi_number_rules True (Some lo) mx n = Inr w"
  shows "\<exists>r. n = Fin r \<and> w = JNumber (Fin r) \<and> of_int \<lfloor>r\<rfloor> = r \<and> of_int lo \<le> r
            \<and> (\<forall>hi. mx = Some hi \<longrightarrow> r \<le> of_int hi)"
  using assms
  by (cases n) (auto simp add: joi_number_rules_def Let_def split: if_splits option.splits)

lemma joi_number_Inr:
  assumes "joi_number J True (Some lo) mx x = Inr w"
  shows "\<exists>r. w = JNumber (Fin r) \<and> of_int \<lfloor>r\<rfloor> = r \<and> of_int lo \<le> r
            \<and> (\<forall>hi. mx = Some hi \<longrightarrow> r \<le> of_int hi)
            \<and> (\<forall>n. x = JNumber n \<longrightarrow> n = Fin r)"
  using assms
  by (cases x)
     (auto simp add: joi_number_def dest!: joi_number_rules_Inr split: option.splits sum.splits)

lemma number_key_Inr:
  assumes "joi_validate_key J
             \<lparr>key_type = JoiNumber True (Some lo) mx, key_valid = None,
              key_required = False, key_default = Some d\<rparr> xo = Inr w"
  shows "(xo = None \<and> w = Some d)
       \<or> (\<exists>x r. xo = Some x \<and> w = Some (JNumber (Fin r)) \<and> of_int \<lfloor>r\<rfloor> = r
              \<and> of_int lo \<le> r \<and> (\<forall>hi. mx = Some hi \<longrightarrow> r \<le> of_int hi)
              \<and> (\<forall>n. x = JNumber n \<longrightarrow> n = Fin r))"
proof (cases xo)
  case None
  with assms show ?thesis
    by (simp add: joi_validate_key_def)
next
  case (Some x)
  with assms obtain y where "joi_number J True (Some lo) mx x = Inr y" and "w = Some y"
    by (auto simp add: joi_validate_key_def joi_typed_def split: sum.splits)
  with joi_number_Inr [of J lo mx x y] Some show ?thesis
    by auto
qed

lemma pagination_valid:
  assumes "joi_validate J paginationSchema obj = Inr v"
  shows "\<exists>p l. v ''page'' = Some (JNumber (Fin (of_int p)))
             \<and> v ''limit'' = Some (JNumber (Fin (of_int l)))
             \<and> 1 \<le> p \<and> 1 \<le> l \<and> l \<le> 100
             \<and> (obj ''page'' = None \<longrightarrow> p = 1) \<and> (obj ''limit'' = None \<longrightarrow> l = 10)
             \<and> (\<forall>n. obj ''page'' = Some (JNumber n) \<longrightarrow> n = Fin (of_int p))
             \<and> (\<forall>n. obj ''limit'' = Some (JNumber n) \<longrightarrow> n = Fin (of_int l))"
proof -
  let ?pk = "\<lparr>key_type = JoiNumber True (Some 1) None, key_valid = None,
              key_required = False, key_default = Some (JNumber (Fin 1))\<rparr>"
  let ?lk = "\<lparr>key_type = JoiNumber True (Some 1) (Some 100), key_valid = None,
              key_required = False, key_default = Some (JNumber (Fin 10))\<rparr>"
  have ks: "keys paginationSchema = [(''page'', ?pk), (''limit'', ?lk)]"
    by (simp add: paginationSchema_def)
  from assms have
    all: "\<forall>(name, k)\<in>set (keys paginationSchema). \<exists>w. joi_validate_key J k (obj name) = Inr w"
    and v: "v = joi_value J paginationSchema obj"
    by (simp_all add: joi_validate_Inr_iff)
  from all obtain wp where wp: "joi_validate_key J ?pk (obj ''page'') = Inr wp"
    unfolding ks by auto
  from all obtain wl where wl: "joi_validate_key J ?lk (obj ''limit'') = Inr wl"
    unfolding ks by auto
  have vp: "v ''page'' = wp"
    unfolding v joi_value_def ks using wp by simp
  have vl: "v ''limit'' = wl"
    unfolding v joi_value_def ks using wl by simp
  obtain p where p: "wp = Some (JNumber (Fin (of_int p)))" "1 \<le> p" "obj ''page'' = None \<longrightarrow> p = 1"
             "\<forall>n. obj ''page'' = Some (JNumber n) \<longrightarrow> n = Fin (of_int p)"
  proof -
    from number_key_Inr [OF wp] show ?thesis
    proof (elim disjE exE conjE)
      assume "obj ''page'' = None" and "wp = Some (JNumber (Fin 1))"
      then show ?thesis using that [of 1] by simp
    next
      fix x r
      assume given: "obj ''page'' = Some x" "wp = Some (JNumber (Fin r))"
          "of_int \<lfloor>r\<rfloor> = r" "of_int 1 \<le> r" "\<forall>n. x = JNumber n \<longrightarrow> n = Fin r"
      from given(3) obtain z where rz: "r = of_int z" by metis
      from given(4) have "1 \<le> z" unfolding rz by simp
      with given(1,2,5) show ?thesis using that [of z] unfolding rz by simp
    qed
  qed
  obtain l where l: "wl = Some (JNumber (Fin (of_int l)))" "1 \<le> l" "l \<le> 100"
             "obj ''limit'' = None \<longrightarrow> l = 10"
             "\<forall>n. obj ''limit'' = Some (JNumber n) \<longrightarrow> n = Fin (of_int l)"
  proof -
    from number_key_Inr [OF wl] show ?thesis
    proof (elim disjE exE conjE)
      assume "obj ''limit'' = None" and "wl = Some (JNumber (Fin 10))"
      then show ?thesis using that [of 10] by simp
    next
      fix x r
      assume given: "obj ''limit'' = Some x" "wl = Some (JNumber (Fin r))"
          "of_int \<lfloor>r\<rfloor> = r" "of_int 1 \<le> r" "\<forall>hi. Some 100 = Some hi \<longrightarrow> r \<le> of_int hi"
          "\<forall>n. x = JNumber n \<longrightarrow> n = Fin r"
      from given(3) obtain z where rz: "r = of_int z" by metis
      from given(5) have "r \<le> 100" by simp
      with given(4) have "1 \<le> z" "z \<le> 100" unfolding rz by simp_all
      with given(1,2,6) show ?thesis using that [of z] unfolding rz by simp
    qed
  qed
  show ?thesis
    unfolding vp vl
    by (intro exI [of _ p] exI [of _ l] conjI)
       (rule p(1), rule l(1), rule p(2), rule l(2), rule l(3), rule p(3), rule l(4), rule p(4),
        rule l(5))
qed

lemma validate_Some:
  assumes "validate fw J schema prop req = (Some e, req')"
  shows "req' = req \<and> (\<exists>ds. e = AppError 400 VALIDATION_ERROR ''Validation failed'' (Some ds) \<and> ds \<noteq> [])"
  using assms
  by (auto simp add: validate_def joi_validate_def Let_def split: sum.splits if_splits)

lemma validate_query_None:
  assumes "validate fw J schema Query req = (None, req')"
  shows "\<exists>v. joi_validate J schema (query_to_numbers J (query req)) = Inr v
           \<and> req' = Object_assign_query fw req v"
  using assms by (auto simp add: validate_def Let_def split: sum.splits)

lemma as_int_of_int: "as_int (Some (JNumber (Fin (of_int p)))) = Some p"
  by (simp add: as_int_def)

text \<open>
  The object that Joi returns for a query that \<open>paginationSchema\<close> accepts: \<open>page\<close> and
  \<open>limit\<close> are integers within the bounds, the defaults stand in for what the query did
  not give, and a parameter the query gave as a numeric string keeps its value.
\<close>

lemma pagination_value:
  assumes "joi_validate J paginationSchema (query_to_numbers J q) = Inr v"
  shows "\<exists>p l. v ''page'' = Some (JNumber (Fin (of_int p)))
             \<and> v ''limit'' = Some (JNumber (Fin (of_int l)))
             \<and> 1 \<le> p \<and> 1 \<le> l \<and> l \<le> 100
             \<and> (q ''page'' = None \<longrightarrow> p = 1) \<and> (q ''limit'' = None \<longrightarrow> l = 10)
             \<and> (\<forall>s r. q ''page'' = Some (JString s) \<and> js_Number J s = Fin r \<longrightarrow> r = of_int p)
             \<and> (\<forall>s r. q ''limit'' = Some (JString s) \<and> js_Number J s = Fin r \<longrightarrow> r = of_int l)"
proof -
  let ?obj = "query_to_numbers J q"
  from pagination_valid [OF assms] obtain p l where
    pl: "v ''page'' = Some (JNumber (Fin (of_int p)))" "v ''limit'' = Some (JNumber (Fin (of_int l)))"
        "1 \<le> p" "1 \<le> l" "l \<le> 100"
        "?obj ''page'' = None \<longrightarrow> p = 1" "?obj ''limit'' = None \<longrightarrow> l = 10"
        "\<forall>n. ?obj ''page'' = Some (JNumber n) \<longrightarrow> n = Fin (of_int p)"
        "\<forall>n. ?obj ''limit'' = Some (JNumber n) \<longrightarrow> n = Fin (of_int l)"
    by (elim exE conjE) (rule that; assumption)
  have dp: "q ''page'' = None \<longrightarrow> p = 1"
    using pl(6) by (simp add: query_to_numbers_def)
  have dl: "q ''limit'' = None \<longrightarrow> l = 10"
    using pl(7) by (simp add: query_to_numbers_def)
  have np: "\<forall>s r. q ''page'' = Some (JString s) \<and> js_Number J s = Fin r \<longrightarrow> r = of_int p"
    using pl(8) by (auto simp add: query_to_numbers_def)
  have nl: "\<forall>s r. q ''limit'' = Some (JString s) \<and> js_Number J s = Fin r \<longrightarrow> r = of_int l"
    using pl(9) by (auto simp add: query_to_numbers_def)
  show ?thesis
    by (intro exI [of _ p] exI [of _ l] conjI)
       (rule pl(1), rule pl(2), rule pl(3), rule pl(4), rule pl(5), rule dp, rule dl, rule np, rule nl)
qed

text \<open>
  Where the assignment to \<open>req.query\<close> takes effect (Express 4), an accepted request
  carries these parameters to the handler.
\<close>

lemma pagination_accepts_express4:
  assumes "validate Express4 J paginationSchema Query req = (None, req')"
  shows "\<exists>ps. as_PaginationParams (query req') = Some ps
            \<and> 1 \<le> page ps \<and> 1 \<le> limit ps \<and> limit ps \<le> 100
            \<and> (query req ''page'' = None \<longrightarrow> page ps = 1)
            \<and> (query req ''limit'' = None \<longrightarrow> limit ps = 10)"
proof -
  from validate_query_None [OF assms] obtain v where
    v: "joi_validate J paginationSchema (query_to_numbers J (query req)) = Inr v"
    and req': "req' = req\<lparr>query := query req ++ v\<rparr>"
    by (auto simp add: Object_assign_query_def)
  from pagination_value [OF v] obtain p l where
    pl: "v ''page'' = Some (JNumber (Fin (of_int p)))" "v ''limit'' = Some (JNumber (Fin (of_int l)))"
        "1 \<le> p" "1 \<le> l" "l \<le> 100"
        "query req ''page'' = None \<longrightarrow> p = 1" "query req ''limit'' = None \<longrightarrow> l = 10"
    by (elim exE conjE) (rule that; assumption)
  have ps: "as_PaginationParams (query req') = Some \<lparr>page = p, limit = l\<rparr>"
    using req' pl(1,2) by (simp add: as_PaginationParams_def as_int_of_int map_add_def)
  from ps pl(3,4,5,6,7) show ?thesis
    by (intro exI [of _ "\<lparr>page = p, limit = l\<rparr>"]) simp
qed

text \<open>
  Under either version, a query whose \<open>page\<close> reads as a number below 1, or whose
  \<open>limit\<close> reads as a number below 1 or above 100, is rejected with
  \<open>AppError(400, VALIDATION_ERROR)\<close>, and the route answers 400 whatever middlewares and
  handler follow \<open>validate\<close>.
\<close>

lemma pagination_rejects:
  assumes bad: "(query req ''page'' = Some (JString s) \<and> js_Number J s = Fin r \<and> r < 1)
          \<or> (query req ''limit'' = Some (JString s) \<and> js_Number J s = Fin r \<and> (r < 1 \<or> 100 < r))"
  shows "\<exists>ds. validate fw J paginationSchema Query req =
               (Some (AppError 400 VALIDATION_ERROR ''Validation failed'' (Some ds)), req)
          \<and> run_route (validate fw J paginationSchema Query # ms) handler req =
               Inl \<lparr>status = 400, err_code = VALIDATION_ERROR,
                    err_message = ''Validation failed'', err_details = Some ds\<rparr>"
proof -
  obtain o' req' where v: "validate fw J paginationSchema Query req = (o', req')"
    by (cases "validate fw J paginationSchema Query req")
  have "o' \<noteq> None"
  proof
    assume "o' = None"
    with v have "validate fw J paginationSchema Query req = (None, req')" by simp
    from validate_query_None [OF this] obtain w where
      "joi_validate J paginationSchema (query_to_numbers J (query req)) = Inr w"
      by blast
    from pagination_value [OF this] obtain p l :: int where
      pl: "1 \<le> p" "1 \<le> l" "l \<le> 100"
          "\<forall>s r. query req ''page'' = Some (JString s) \<and> js_Number J s = Fin r \<longrightarrow> r = of_int p"
          "\<forall>s r. query req ''limit'' = Some (JString s) \<and> js_Number J s = Fin r \<longrightarrow> r = of_int l"
      by (elim exE conjE) (rule that; assumption)
    from bad show False
    proof
      assume p: "query req ''page'' = Some (JString s) \<and> js_Number J s = Fin r \<and> r < 1"
      with pl(4) have "r = of_int p" by blast
      with p pl(1) show False by simp
    next
      assume l: "query req ''limit'' = Some (JString s) \<and> js_Number J s = Fin r \<and> (r < 1 \<or> 100 < r)"
      with pl(5) have "r = of_int l" by blast
      with l pl(2,3) show False by auto
    qed
  qed
  then obtain e where "o' = Some e" by blast
  with v have ve: "validate fw J paginationSchema Query req = (Some e, req')" by simp
  from validate_Some [OF ve] obtain ds where
    "req' = req" and "e = AppError 400 VALIDATION_ERROR ''Validation failed'' (Some ds)"
    by blast
  with ve have vd: "validate fw J paginationSchema Query req =
               (Some (AppError 400 VALIDATION_ERROR ''Validation failed'' (Some ds)), req)"
    by simp
  then have "run_route (validate fw J paginationSchema Query # ms) handler req =
               Inl \<lparr>status = 400, err_code = VALIDATION_ERROR,
                    err_message = ''Validation failed'', err_details = Some ds\<rparr>"
    by (simp add: errorHandler_def)
  with vd show ?thesis
    by blast
qed

text \<open>
  On Express 5 an accepted request leaves \<open>validate\<close> as it came: what the validation
  computed is not in \<open>req.query\<close>.
\<close>

lemma validate_query_express5:
  assumes "validate Express5 J schema Query req = (None, req')"
  shows "req' = req"
  using validate_query_None [OF assms] by (auto simp add: Object_assign_query_def)

lemma pagination_strings_express5:
  assumes "validate Express5 J paginationSchema Query req = (None, req')"
    and "query req ''page'' = Some (JString s)"
  shows "query req' ''page'' = Some (JString s)" and "as_PaginationParams (query req') = None"
  using validate_query_express5 [OF assms(1)] assms(2)
  by (simp_all add: as_PaginationParams_def as_int_def)

lemma pagination_defaults_express4:
  "as_PaginationParams (query (snd (validate Express4 J paginationSchema Query
     \<lparr>authorization = Some ''Bearer t'', body = Map.empty, query = Map.empty,
      params = Map.empty, req_user = Some \<lparr>ru_id = ''user-1'', ru_role = USER\<rparr>\<rparr>)))
   = Some \<lparr>page = 1, limit = 10\<rparr>"
  by (simp add: validate_def joi_validate_def joi_errors_def joi_value_def paginationSchema_def
        joi_validate_key_def query_to_numbers_def Object_assign_query_def Let_def
        as_PaginationParams_def as_int_def map_add_def)

text \<open>
  C10. A list query that passes validation is meant to give the handler pagination
  parameters with \<open>page \<ge> 1\<close> and \<open>1 \<le> limit \<le> 100\<close>, 1 and 10 when absent, and a
  query out of these bounds is to be rejected before the task service. The rejection
  holds (\<open>pagination_rejects\<close>), and so do the bounds and defaults of the object Joi
  returns (\<open>pagination_value\<close>). But on Express 5 the request \<open>GET /v1/tasks\<close> with no
  query string passes \<open>validate\<close> unchanged: the handler reads a \<open>req.query\<close> with no
  \<open>page\<close> and no \<open>limit\<close>, not 1 and 10. The tests of the repository expect status 200
  from both list endpoints, and its notes record two tests that fail on the conversion
  of query parameters.
\<close>

theorem pagination_defaults_not_delivered:
  "validate Express5 J paginationSchema Query
     \<lparr>authorization = Some ''Bearer t'', body = Map.empty, query = Map.empty,
      params = Map.empty, req_user = Some \<lparr>ru_id = ''user-1'', ru_role = USER\<rparr>\<rparr>
   = (None,
      \<lparr>authorization = Some ''Bearer t'', body = Map.empty, query = Map.empty,
       params = Map.empty, req_user = Some \<lparr>ru_id = ''user-1'', ru_role = USER\<rparr>\<rparr>)
 \<and> query (snd (validate Express5 J paginationSchema Query
     \<lparr>authorization = Some ''Bearer t'', body = Map.empty, query = Map.empty,
      params = Map.empty, req_user = Some \<lparr>ru_id = ''user-1'', ru_role = USER\<rparr>\<rparr>)) ''page''
   = None
 \<and> query (snd (validate Express5 J paginationSchema Query
     \<lparr>authorization = Some ''Bearer t'', body = Map.empty, query = Map.empty,
      params = Map.empty, req_user = Some \<lparr>ru_id = ''user-1'', ru_role = USER\<rparr>\<rparr>)) ''limit''
   = None
 \<and> as_PaginationParams (query (snd (validate Express5 J paginationSchema Query
     \<lparr>authorization = Some ''Bearer t'', body = Map.empty, query = Map.empty,
      params = Map.empty, req_user = Some \<lparr>ru_id = ''user-1'', ru_role = USER\<rparr>\<rparr>)))
   = None"
proof -
  let ?req = "\<lparr>authorization = Some ''Bearer t'', body = Map.empty, query = Map.empty,
      params = Map.empty, req_user = Some \<lparr>ru_id = ''user-1'', ru_role = USER\<rparr>\<rparr>"
  have v: "validate Express5 J paginationSchema Query ?req = (None, ?req)"
    by (simp add: validate_def joi_validate_def joi_errors_def paginationSchema_def
          joi_validate_key_def query_to_numbers_def Object_assign_query_def Let_def)
  show ?thesis
    unfolding v by (simp add: as_PaginationParams_def as_int_def)
qed







end
